theory Spec2Isabelle
  imports Main
begin

section \<open>Values shared by the modules\<close>

text \<open>
  JavaScript values that cross the modelled interfaces: JSON bodies, database rows and
  token payloads. A thrown \<^verbatim>\<open>Error\<close> is a value carrying its message; a function that
  may throw (or a promise that may reject) returns \<open>js_error + 'a\<close>, with \<open>Inl\<close> the error.
\<close>

datatype json =
    JNull
  | JBool bool
  | JNumber int
  | JString string
  | JObject "(string \<times> json) list"

datatype js_error = JsError (message: string)

text \<open>\<^verbatim>\<open>process.env\<close>: a variable is unset (\<open>None\<close>) or holds a string.\<close>

type_synonym environment = "string \<rightharpoonup> string"

text \<open>What \<^verbatim>\<open>console.log\<close> and \<^verbatim>\<open>console.error\<close> have printed so far, oldest first.\<close>

type_synonym console = "string list"

text \<open>
  JavaScript truthiness of a value of type \<^verbatim>\<open>string | undefined\<close>: \<^verbatim>\<open>undefined\<close> and
  the empty string are falsy, every other string is truthy.
\<close>

definition truthy :: "string option \<Rightarrow> bool" where
  "truthy v = (case v of None \<Rightarrow> False | Some s \<Rightarrow> s \<noteq> [])"

text \<open>\<^verbatim>\<open>s.startsWith(p)\<close>.\<close>

definition startsWith :: "string \<Rightarrow> string \<Rightarrow> bool" where
  "startsWith s p = (take (length p) s = p)"


section \<open>The session verifier: \<^verbatim>\<open>utiles/getUserFomCookies.ts\<close>\<close>

text \<open>
  The function as ARCHITECTURE.md quotes it:
  \<^verbatim>\<open>
  const cookieStore = await cookies();
  const jwtStore = cookieStore.get("jwt");
  if (jwtStore) {
    try {
      const secret = new TextEncoder().encode(process.env.JWT_SECRET);
      const token = jwtStore.value;
      const { payload } = await jwtVerify(token, secret);
      userData = {
        id: payload.id, email: payload.email,
        role: payload.roleName, samsar: payload.samsar,
      };
    } catch (error) {
      console.log(`JWT verification failed: ${error.message}`);
    }
  }
  return userData; // Returns user object OR null
  \<close>
  The cookie collection maps a cookie's name to its value; \<^verbatim>\<open>cookieStore.get\<close> yields an
  object (truthy whatever its value) or \<^verbatim>\<open>undefined\<close>.
\<close>

type_synonym cookie_store = "string \<rightharpoonup> string"

text \<open>The decoded claims of a token: a JSON object, read by property name.\<close>

type_synonym jwt_payload = "string \<rightharpoonup> json"

text \<open>
  \<^verbatim>\<open>jwtVerify\<close> belongs to the library \<^verbatim>\<open>jose\<close>; the model takes it as a parameter that,
  given the token and the key bytes, resolves to the payload or rejects (bad signature,
  expired, malformed). It stands for the library's function at the instant of the request.
\<close>

type_synonym jwt_verifier = "string \<Rightarrow> string \<Rightarrow> js_error + jwt_payload"

text \<open>
  \<^verbatim>\<open>new TextEncoder().encode(v)\<close> for \<^verbatim>\<open>v: string | undefined\<close>: the bytes of the string,
  and no bytes for \<^verbatim>\<open>undefined\<close> (the argument's default is the empty string).
\<close>

definition encode :: "string option \<Rightarrow> string" where
  "encode v = (case v of None \<Rightarrow> [] | Some s \<Rightarrow> s)"

text \<open>A property that the payload lacks reads as \<^verbatim>\<open>undefined\<close>, here \<open>None\<close>.\<close>

record user_data =
  id :: "json option"
  email :: "json option"
  role :: "json option"
  samsar :: "json option"

text \<open>The body of the \<^verbatim>\<open>try\<close> block.\<close>

definition verify_token :: "jwt_verifier \<Rightarrow> environment \<Rightarrow> string \<Rightarrow> js_error + user_data" where
  "verify_token jwtVerify env token =
     (let secret = encode (env ''JWT_SECRET'')
      in case jwtVerify token secret of
           Inl error \<Rightarrow> Inl error
         | Inr payload \<Rightarrow>
             Inr \<lparr>id = payload ''id'', email = payload ''email'',
                  role = payload ''roleName'', samsar = payload ''samsar''\<rparr>)"

text \<open>
  The whole function: the result (\<open>None\<close> is \<^verbatim>\<open>null\<close>) and the console afterwards. The
  \<^verbatim>\<open>catch\<close> clause is the \<open>Inl\<close> branch.
\<close>

definition getUserFromCookies ::
  "jwt_verifier \<Rightarrow> environment \<Rightarrow> cookie_store \<Rightarrow> console \<Rightarrow> (js_error + user_data option) \<times> console" where
  "getUserFromCookies jwtVerify env cookieStore out =
     (case cookieStore ''jwt'' of
        None \<Rightarrow> (Inr None, out)
      | Some token \<Rightarrow>
          (case verify_token jwtVerify env token of
             Inr userData \<Rightarrow> (Inr (Some userData), out)
           | Inl error \<Rightarrow> (Inr None, out @ [''JWT verification failed: '' @ message error])))"


text \<open>
  The same function with everything it touches held in one state, for properties about
  running it more than once: the request's cookie store, the console, and the clock
  that \<^verbatim>\<open>jwtVerify\<close> reads for the expiry check. Here the library function takes the
  instant at which it is called.
\<close>

record world =
  cookieJar :: cookie_store
  stdout :: console
  clock :: nat

type_synonym timed_verifier = "nat \<Rightarrow> jwt_verifier"

text \<open>\<^verbatim>\<open>cookieStore.get(name)\<close>: a read of the store.\<close>

definition cookie_get :: "string \<Rightarrow> world \<Rightarrow> string option \<times> world" where
  "cookie_get name w = (cookieJar w name, w)"

text \<open>\<^verbatim>\<open>await jwtVerify(token, secret)\<close>: the library's check at the current instant.\<close>

definition jwt_verify_now ::
  "timed_verifier \<Rightarrow> string \<Rightarrow> string \<Rightarrow> world \<Rightarrow> (js_error + jwt_payload) \<times> world" where
  "jwt_verify_now jwtVerify token secret w = (jwtVerify (clock w) token secret, w)"

text \<open>\<^verbatim>\<open>console.log(line)\<close>.\<close>

definition console_log :: "string \<Rightarrow> world \<Rightarrow> world" where
  "console_log line w = w\<lparr>stdout := stdout w @ [line]\<rparr>"

definition getUserFromCookies_in ::
  "timed_verifier \<Rightarrow> environment \<Rightarrow> world \<Rightarrow> (js_error + user_data option) \<times> world" where
  "getUserFromCookies_in jwtVerify env w =
     (case cookie_get ''jwt'' w of
        (None, w1) \<Rightarrow> (Inr None, w1)
      | (Some token, w1) \<Rightarrow>
          (let secret = encode (env ''JWT_SECRET'')
           in case jwt_verify_now jwtVerify token secret w1 of
                (Inr payload, w2) \<Rightarrow>
                  (Inr (Some \<lparr>id = payload ''id'', email = payload ''email'',
                              role = payload ''roleName'', samsar = payload ''samsar''\<rparr>), w2)
              | (Inl error, w2) \<Rightarrow>
                  (Inr None, console_log (''JWT verification failed: '' @ message error) w2)))"

text \<open>Time passing between two calls: the clock moves on by \<open>d\<close>, nothing else changes.\<close>

definition later :: "nat \<Rightarrow> world \<Rightarrow> world" where
  "later d w = w\<lparr>clock := clock w + d\<rparr>"

text \<open>
  A timed verifier to run the function on: the token \<open>good\<close> carries the payload \<open>p\<close>
  and is accepted under the key \<open>k\<close> at every instant before \<open>expiry\<close>.
\<close>

definition expiring_token :: "string \<Rightarrow> string \<Rightarrow> jwt_payload \<Rightarrow> nat \<Rightarrow> timed_verifier" where
  "expiring_token good k p expiry now token secret =
     (if token = good \<and> secret = k
      then (if now < expiry then Inr p else Inl (JsError ''exp claim timestamp check failed''))
      else Inl (JsError ''signature verification failed''))"


section \<open>The route guard: \<^verbatim>\<open>middleware.ts\<close>\<close>

text \<open>
  The function as ARCHITECTURE.md quotes it:
  \<^verbatim>\<open>
  export async function middleware(request: NextRequest) {
    const url = request.nextUrl.clone();
    const path = url.pathname;
    if (path === "/favicon.ico") {
      return NextResponse.next();
    }
    const userData = await getUserFromCookies();
    if (
      path.startsWith("/fr/my") ||
      path.startsWith("/ar/my") ||
      path.startsWith("/fr/admin")
    ) {
      if (!userData) {
        url.pathname = `/p/users/connexion`;
        return NextResponse.redirect(url);
      }
    }
    return I18nMiddleware(request);
  }
  \<close>
\<close>

record url =
  origin :: string
  pathname :: string
  search :: string

record request =
  nextUrl :: url
  cookies :: cookie_store

text \<open>
  What the guard returns: \<^verbatim>\<open>NextResponse.next()\<close>, a redirect to a URL, or the request
  handed to the locale router \<^verbatim>\<open>I18nMiddleware\<close>, which is outside the guard.
\<close>

datatype outcome =
    Next
  | Redirect url
  | I18nMiddleware request

text \<open>The condition of the outer \<^verbatim>\<open>if\<close>: the guard's classification of a path.\<close>

definition protected_path :: "string \<Rightarrow> bool" where
  "protected_path path =
     (startsWith path ''/fr/my'' \<or> startsWith path ''/ar/my'' \<or> startsWith path ''/fr/admin'')"

definition middleware ::
  "jwt_verifier \<Rightarrow> environment \<Rightarrow> request \<Rightarrow> console \<Rightarrow> (js_error + outcome) \<times> console" where
  "middleware jwtVerify env request out =
     (let url = nextUrl request; path = pathname url
      in if path = ''/favicon.ico'' then (Inr Next, out)
         else
           (case getUserFromCookies jwtVerify env (cookies request) out of
              (Inl error, out') \<Rightarrow> (Inl error, out')
            | (Inr userData, out') \<Rightarrow>
                if protected_path path \<and> userData = None
                then (Inr (Redirect (url\<lparr>pathname := ''/p/users/connexion''\<rparr>)), out')
                else (Inr (I18nMiddleware request), out')))"

text \<open>Both \<^verbatim>\<open>NextResponse.next()\<close> and the hand-over to the locale router let the request through.\<close>

fun passes_through :: "outcome \<Rightarrow> bool" where
  "passes_through Next = True"
| "passes_through (Redirect u) = False"
| "passes_through (I18nMiddleware r) = True"

text \<open>
  The classification in the specification's words, to compare the guard's with: for each
  supported locale, the locale's private-area prefix and its administrative-area prefix.
\<close>

definition locales :: "string list" where
  "locales = [''ar'', ''fr'']"

definition specified_protected :: "string \<Rightarrow> bool" where
  "specified_protected path =
     list_ex (\<lambda>locale. startsWith path (''/'' @ locale @ ''/my'') \<or>
                       startsWith path (''/'' @ locale @ ''/admin'')) locales"

text \<open>The locale segment of a path: what stands between the first and the second slash.\<close>

definition locale_segment :: "string \<Rightarrow> string" where
  "locale_segment path = takeWhile (\<lambda>c. c \<noteq> CHR ''/'') (drop 1 path)"

text \<open>
  A verifier to run the guard on: it accepts exactly the token \<open>good\<close> under the key
  \<open>k\<close>, with the payload \<open>p\<close>, and rejects everything else.
\<close>

definition only_token :: "string \<Rightarrow> string \<Rightarrow> jwt_payload \<Rightarrow> jwt_verifier" where
  "only_token good k p token secret =
     (if token = good \<and> secret = k then Inr p
      else Inl (JsError ''signature verification failed''))"

definition request_for :: "string \<Rightarrow> cookie_store \<Rightarrow> request" where
  "request_for path cs =
     \<lparr>nextUrl = \<lparr>origin = ''https://eddeyar.example'', pathname = path, search = ''''\<rparr>,
      cookies = cs\<rparr>"


section \<open>The database module: \<^verbatim>\<open>lib/mongodb.ts\<close>\<close>

text \<open>
  \<^verbatim>\<open>uri.match(/\/([^/?]+)(\?|$)/)\<close>. The pattern has no flags: the match is the leftmost
  one, and \<^verbatim>\<open>$\<close> is the end of the string. At a given slash the class \<^verbatim>\<open>[^/?]+\<close> first
  takes the longest run of characters other than \<^verbatim>\<open>/\<close> and \<^verbatim>\<open>?\<close>; a shorter run is
  followed by a character of the class, which is neither \<^verbatim>\<open>?\<close> nor the end, so
  backtracking into the run never succeeds and the match at that slash is decided by the
  longest run alone.
\<close>

definition segment_char :: "char \<Rightarrow> bool" where
  "segment_char c = (c \<noteq> CHR ''/'' \<and> c \<noteq> CHR ''?'')"

text \<open>The pattern tried at the head of the string: the first capture group, or no match.\<close>

definition match_here :: "string \<Rightarrow> string option" where
  "match_here s =
     (case s of
        [] \<Rightarrow> None
      | c # rest \<Rightarrow>
          if c = CHR ''/'' then
            (let group1 = takeWhile segment_char rest;
                 after = dropWhile segment_char rest
             in if group1 \<noteq> [] \<and> (case after of [] \<Rightarrow> True | d # ds \<Rightarrow> d = CHR ''?'')
                then Some group1 else None)
          else None)"

text \<open>The pattern tried at every index from the left: \<open>uriMatch[1]\<close>, or \<open>None\<close> for \<^verbatim>\<open>null\<close>.\<close>

fun uri_match :: "string \<Rightarrow> string option" where
  "uri_match [] = None"
| "uri_match (c # cs) =
     (case match_here (c # cs) of Some group1 \<Rightarrow> Some group1 | None \<Rightarrow> uri_match cs)"

definition getDatabaseName :: "environment \<Rightarrow> string \<Rightarrow> string" where
  "getDatabaseName env uri =
     (let fallback =
            (case env ''MONGODB_DATABASE'' of
               Some d \<Rightarrow> if d \<noteq> [] then d else ''rim-ebay''
             | None \<Rightarrow> ''rim-ebay'');
          extracted =
            (case uri_match uri of
               Some group1 \<Rightarrow> if group1 \<noteq> [] then group1 else fallback
             | None \<Rightarrow> fallback)
      in case env ''DATABASE_NAME'' of
           Some name \<Rightarrow> if name \<noteq> [] then name else extracted
         | None \<Rightarrow> extracted)"

record mongo_options =
  serverSelectionTimeoutMS :: nat
  connectTimeoutMS :: nat

definition options :: mongo_options where
  "options = \<lparr>serverSelectionTimeoutMS = 5000, connectTimeoutMS = 8000\<rparr>"

text \<open>\<^verbatim>\<open>new MongoClient(uri)\<close> and \<^verbatim>\<open>new MongoClient(uri, options)\<close>.\<close>

record mongo_client =
  client_uri :: string
  client_options :: "mongo_options option"

text \<open>\<^verbatim>\<open>client.connect()\<close>: a promise, here by what it settles to.\<close>

type_synonym client_promise = "js_error + mongo_client"

text \<open>\<^verbatim>\<open>c.db(name)\<close>: a handle to the database \<open>name\<close> on the client \<open>c\<close>.\<close>

record db =
  db_client :: mongo_client
  db_name :: string

text \<open>What the module holds once it is loaded.\<close>

record mongodb_module =
  databaseName :: string
  clientPromise :: client_promise

text \<open>
  Loading the module: the top-level statements in order. The driver is a parameter:
  \<open>newMongoClient\<close> is the constructor \<^verbatim>\<open>new MongoClient(uri, options?)\<close>, which parses the
  connection string and throws on one it cannot parse, and \<open>connect\<close> is \<^verbatim>\<open>client.connect()\<close>.
  A throw of the constructor ends the load like the throw for the missing
  \<^verbatim>\<open>DATABASE_URL\<close>. \<open>cached\<close> is \<^verbatim>\<open>global._mongoClientPromise\<close>, returned as the load
  leaves it.
\<close>

type_synonym mongo_constructor = "string \<Rightarrow> mongo_options option \<Rightarrow> js_error + mongo_client"

definition missing_uri :: js_error where
  "missing_uri = JsError ''Please add MONGODB_URI or DATABASE_URL to your .env''"

definition load_mongodb ::
  "mongo_constructor \<Rightarrow> (mongo_client \<Rightarrow> client_promise) \<Rightarrow> environment \<Rightarrow>
     client_promise option \<Rightarrow> (js_error + mongodb_module) \<times> client_promise option" where
  "load_mongodb newMongoClient connect env cached =
     (case env ''DATABASE_URL'' of
        None \<Rightarrow> (Inl missing_uri, cached)
      | Some uri \<Rightarrow>
          if uri = [] then (Inl missing_uri, cached)
          else
            (let name = getDatabaseName env uri
             in if env ''NODE_ENV'' = Some ''development'' then
                  (case cached of
                     None \<Rightarrow>
                       (case newMongoClient uri None of
                          Inl error \<Rightarrow> (Inl error, cached)
                        | Inr client \<Rightarrow>
                            (let p = connect client
                             in (Inr \<lparr>databaseName = name, clientPromise = p\<rparr>, Some p)))
                   | Some p \<Rightarrow> (Inr \<lparr>databaseName = name, clientPromise = p\<rparr>, Some p))
                else
                  (case newMongoClient uri (Some options) of
                     Inl error \<Rightarrow> (Inl error, cached)
                   | Inr client \<Rightarrow>
                       (Inr \<lparr>databaseName = name, clientPromise = connect client\<rparr>, cached))))"

definition getDb :: "mongodb_module \<Rightarrow> js_error + db" where
  "getDb m =
     (case clientPromise m of
        Inl error \<Rightarrow> Inl error
      | Inr c \<Rightarrow> Inr \<lparr>db_client = c, db_name = databaseName m\<rparr>)"

text \<open>
  A driver to run the module on: its constructor accepts the connection strings that
  begin with one of the two MongoDB schemes and throws on every other string, and its
  \<^verbatim>\<open>connect\<close> always succeeds.
\<close>

definition scheme_client :: mongo_constructor where
  "scheme_client uri opts =
     (if startsWith uri ''mongodb://'' \<or> startsWith uri ''mongodb+srv://''
      then Inr \<lparr>client_uri = uri, client_options = opts\<rparr>
      else Inl (JsError ''Invalid scheme, expected mongodb:// or mongodb+srv://''))"

definition connect_ok :: "mongo_client \<Rightarrow> client_promise" where
  "connect_ok c = Inr c"


section \<open>The options-by-id endpoint\<close>

text \<open>
  \<^verbatim>\<open>
  export async function GET(request, { params }) {
    try {
      const { id } = await params;
      if (!id) {
        return NextResponse.json(
          { ok: false, error: "Champs obligatoires manquants" }, { status: 400 });
      }
      const result = await turso.execute("SELECT * FROM options WHERE id = ?", [id]);
      const option = result.rows[0] || null;
      return NextResponse.json(option, { status: 200 });
    } catch (error) {
      console.error("options by id GET error:", error);
      return NextResponse.json({ ok: false, error: "Erreur serveur" }, { status: 500 });
    }
  }
  \<close>
  \<^verbatim>\<open>params\<close> is a promise of the route's \<^verbatim>\<open>id\<close>, a string; \<^verbatim>\<open>turso.execute\<close> is the
  database client, a parameter that resolves to the rows or rejects.
\<close>

type_synonym row = "(string \<times> json) list"

type_synonym sql_executor = "string \<Rightarrow> string list \<Rightarrow> js_error + row list"

record response =
  status :: nat
  body :: json

text \<open>\<^verbatim>\<open>NextResponse.json(body, { status })\<close>.\<close>

definition json_response :: "json \<Rightarrow> nat \<Rightarrow> response" where
  "json_response b s = \<lparr>status = s, body = b\<rparr>"

text \<open>The \<^verbatim>\<open>try\<close> block; \<open>ident\<close> is the source's \<^verbatim>\<open>id\<close>.\<close>

definition GET_try :: "sql_executor \<Rightarrow> js_error + string \<Rightarrow> js_error + response" where
  "GET_try execute params =
     (case params of
        Inl error \<Rightarrow> Inl error
      | Inr ident \<Rightarrow>
          if ident = [] then
            Inr (json_response
                   (JObject [(''ok'', JBool False),
                             (''error'', JString ''Champs obligatoires manquants'')]) 400)
          else
            (case execute ''SELECT * FROM options WHERE id = ?'' [ident] of
               Inl error \<Rightarrow> Inl error
             | Inr rows \<Rightarrow>
                 (let option = (case rows of [] \<Rightarrow> JNull | r # rs \<Rightarrow> JObject r)
                  in Inr (json_response option 200))))"

text \<open>The handler: the \<^verbatim>\<open>try\<close> block with its \<^verbatim>\<open>catch\<close> clause.\<close>

definition GET ::
  "sql_executor \<Rightarrow> js_error + string \<Rightarrow> console \<Rightarrow> (js_error + response) \<times> console" where
  "GET execute params out =
     (case GET_try execute params of
        Inr r \<Rightarrow> (Inr r, out)
      | Inl error \<Rightarrow>
          (Inr (json_response
                  (JObject [(''ok'', JBool False), (''error'', JString ''Erreur serveur'')]) 500),
           out @ [''options by id GET error: '' @ message error]))"

text \<open>A table to run the handler on: the rows whose \<open>id\<close> column equals the parameter.\<close>

definition table_executor :: "row list \<Rightarrow> sql_executor" where
  "table_executor table sql args =
     (case args of
        [] \<Rightarrow> Inl (JsError ''missing argument'')
      | a # as \<Rightarrow> Inr (filter (\<lambda>r. map_of r ''id'' = Some (JString a)) table))"


section \<open>Properties of the session verifier and the route guard\<close>

lemma protected_path_iff:
  "protected_path path =
     (\<exists>rest. path = ''/fr/my'' @ rest \<or> path = ''/ar/my'' @ rest \<or> path = ''/fr/admin'' @ rest)"
proof -
  have sw: "\<And>p. startsWith path p = (\<exists>rest. path = p @ rest)"
  proof -
    fix p
    show "startsWith path p = (\<exists>rest. path = p @ rest)"
    proof
      assume "startsWith path p"
      then have "path = p @ drop (length p) path"
        by (metis append_take_drop_id startsWith_def)
      then show "\<exists>rest. path = p @ rest" ..
    next
      assume "\<exists>rest. path = p @ rest"
      then show "startsWith path p" by (auto simp: startsWith_def)
    qed
  qed
  show ?thesis unfolding protected_path_def sw by blast
qed

lemma protected_not_favicon: "protected_path path \<Longrightarrow> path \<noteq> ''/favicon.ico''"
  by (auto simp: protected_path_def startsWith_def)

lemma getUserFromCookies_no_cookie:
  "cookieStore ''jwt'' = None \<Longrightarrow>
   getUserFromCookies jwtVerify env cookieStore out = (Inr None, out)"
  by (simp add: getUserFromCookies_def)

lemma getUserFromCookies_valid:
  "cookieStore ''jwt'' = Some token \<Longrightarrow>
   jwtVerify token (encode (env ''JWT_SECRET'')) = Inr payload \<Longrightarrow>
   getUserFromCookies jwtVerify env cookieStore out =
     (Inr (Some \<lparr>id = payload ''id'', email = payload ''email'',
                 role = payload ''roleName'', samsar = payload ''samsar''\<rparr>), out)"
  by (simp add: getUserFromCookies_def verify_token_def)

lemma getUserFromCookies_invalid:
  "cookieStore ''jwt'' = Some token \<Longrightarrow>
   jwtVerify token (encode (env ''JWT_SECRET'')) = Inl e \<Longrightarrow>
   getUserFromCookies jwtVerify env cookieStore out =
     (Inr None, out @ [''JWT verification failed: '' @ message e])"
  by (simp add: getUserFromCookies_def verify_token_def)

lemma getUserFromCookies_Inr:
  "\<exists>r. fst (getUserFromCookies jwtVerify env cookieStore out) = Inr r"
  by (simp add: getUserFromCookies_def split: option.split sum.split)

lemma middleware_Inr: "\<exists>r. fst (middleware jwtVerify env request out) = Inr r"
  using getUserFromCookies_Inr [of jwtVerify env "cookies request" out]
  by (auto simp: middleware_def Let_def split: prod.split sum.split)


subsection \<open>Classification\<close>

text \<open>
  The guard's list against the specified one: they differ on the paths under
  \<^verbatim>\<open>/ar/admin\<close> and nowhere else.
\<close>

lemma specified_protected_iff:
  "specified_protected path = (protected_path path \<or> startsWith path ''/ar/admin'')"
  by (auto simp: specified_protected_def locales_def protected_path_def)

text \<open>
  C1. For each locale of \<open>{ar, fr}\<close>, a path that begins with the locale's private-area
  prefix or its administrative-area prefix is classified protected, and every other path
  public. The guard's list holds \<^verbatim>\<open>/fr/my\<close>, \<^verbatim>\<open>/ar/my\<close> and \<^verbatim>\<open>/fr/admin\<close> but not
  \<^verbatim>\<open>/ar/admin\<close>: the path \<^verbatim>\<open>/ar/admin/panel\<close>, protected as specified, is classified
  public by the guard, and a request for it without any cookie is handed to the locale
  router instead of being redirected, while its French sibling is protected and
  redirected.
\<close>

theorem ar_admin_not_protected:
  "specified_protected ''/ar/admin/panel'' = True \<and>
   protected_path ''/ar/admin/panel'' = False \<and>
   middleware (only_token ''good'' ''k'' Map.empty) Map.empty
       (request_for ''/ar/admin/panel'' Map.empty) []
     = (Inr (I18nMiddleware (request_for ''/ar/admin/panel'' Map.empty)), []) \<and>
   protected_path ''/fr/admin/panel'' = True \<and>
   middleware (only_token ''good'' ''k'' Map.empty) Map.empty
       (request_for ''/fr/admin/panel'' Map.empty) []
     = (Inr (Redirect \<lparr>origin = ''https://eddeyar.example'',
                       pathname = ''/p/users/connexion'', search = ''''\<rparr>), [])"
  by (simp add: specified_protected_def locales_def protected_path_def startsWith_def
      middleware_def request_for_def getUserFromCookies_def)


subsection \<open>Protected paths\<close>

text \<open>
  C2, as the specification states it: a request for \<^verbatim>\<open>/ar/my/list\<close> without a session
  cookie is redirected to \<^verbatim>\<open>/ar/p/users/connexion\<close>, the login path under the request's
  locale segment. The guard redirects to \<^verbatim>\<open>/p/users/connexion\<close>, which carries no locale
  segment.
\<close>

theorem redirect_target_has_no_locale:
  "middleware (only_token ''good'' ''k'' Map.empty) Map.empty
       (request_for ''/ar/my/list'' Map.empty) []
     = (Inr (Redirect \<lparr>origin = ''https://eddeyar.example'',
                       pathname = ''/p/users/connexion'', search = ''''\<rparr>), []) \<and>
   locale_segment ''/ar/my/list'' = ''ar'' \<and>
   ''/p/users/connexion'' \<noteq> ''/'' @ locale_segment ''/ar/my/list'' @ ''/p/users/connexion''"
  by (simp add: protected_path_def startsWith_def middleware_def request_for_def
      getUserFromCookies_def locale_segment_def)

text \<open>
  C2, amended: for every request whose path begins with \<^verbatim>\<open>/fr/my\<close>, \<^verbatim>\<open>/ar/my\<close> or
  \<^verbatim>\<open>/fr/admin\<close> and whose cookie collection holds no \<^verbatim>\<open>jwt\<close> cookie, the guard's result is
  a redirect to the request's URL with the path replaced by the fixed login path
  \<^verbatim>\<open>/p/users/connexion\<close>; nothing is printed.
\<close>

theorem unauthenticated_protected_redirects:
  "protected_path (pathname (nextUrl request)) \<Longrightarrow> cookies request ''jwt'' = None \<Longrightarrow>
   middleware jwtVerify env request out =
     (Inr (Redirect ((nextUrl request)\<lparr>pathname := ''/p/users/connexion''\<rparr>)), out)"
  by (simp add: middleware_def getUserFromCookies_no_cookie protected_not_favicon)

theorem unauthenticated_protected_redirects_witness:
  "protected_path (pathname (nextUrl (request_for ''/ar/my/list'' Map.empty))) \<and>
   cookies (request_for ''/ar/my/list'' Map.empty) ''jwt'' = None \<and>
   middleware (only_token ''good'' ''k'' Map.empty) Map.empty
       (request_for ''/ar/my/list'' Map.empty) []
     = (Inr (Redirect \<lparr>origin = ''https://eddeyar.example'',
                       pathname = ''/p/users/connexion'', search = ''''\<rparr>), [])"
  using unauthenticated_protected_redirects
    [of "request_for ''/ar/my/list'' Map.empty" "only_token ''good'' ''k'' Map.empty" Map.empty "[]"]
  by (simp add: request_for_def protected_path_def startsWith_def)

text \<open>
  A token that \<^verbatim>\<open>jwtVerify\<close> rejects (wrong signature, expired, malformed) counts as no
  cookie on the paths of the guard's own list: the guard's result is its result on the
  same request without the \<^verbatim>\<open>jwt\<close> cookie, the redirect to the login path.
\<close>

lemma rejected_token_as_no_cookie:
  "protected_path (pathname (nextUrl request)) \<Longrightarrow> cookies request ''jwt'' = Some token \<Longrightarrow>
   jwtVerify token (encode (env ''JWT_SECRET'')) = Inl e \<Longrightarrow>
   fst (middleware jwtVerify env request out) =
     fst (middleware jwtVerify env
            (request\<lparr>cookies := (cookies request)(''jwt'' := None)\<rparr>) out) \<and>
   fst (middleware jwtVerify env request out) =
     Inr (Redirect ((nextUrl request)\<lparr>pathname := ''/p/users/connexion''\<rparr>))"
  by (simp add: middleware_def getUserFromCookies_invalid getUserFromCookies_no_cookie
      protected_not_favicon)

text \<open>
  C3. Whatever the cookie collection holds, the session verifier returns an identity or
  \<^verbatim>\<open>null\<close> and never an error; and for every request to a protected path whose token is
  rejected, the guard's result is its result without the cookie, a redirect. The
  verifier indeed never returns an error (\<open>getUserFromCookies_Inr\<close>), but the redirect
  fails where the guard's list lacks \<^verbatim>\<open>/ar/admin\<close>: a request for \<^verbatim>\<open>/ar/admin/panel\<close>,
  protected as specified, with a forged token is handed to the locale router, as it is
  without any cookie, while the same request for \<^verbatim>\<open>/fr/admin/panel\<close> is redirected.
\<close>

theorem forged_token_on_ar_admin_not_redirected:
  "specified_protected ''/ar/admin/panel'' = True \<and>
   only_token ''good'' ''k'' Map.empty ''forged''
       (encode ([''JWT_SECRET'' \<mapsto> ''k''] ''JWT_SECRET''))
     = Inl (JsError ''signature verification failed'') \<and>
   middleware (only_token ''good'' ''k'' Map.empty) [''JWT_SECRET'' \<mapsto> ''k'']
       (request_for ''/ar/admin/panel'' [''jwt'' \<mapsto> ''forged'']) []
     = (Inr (I18nMiddleware (request_for ''/ar/admin/panel'' [''jwt'' \<mapsto> ''forged''])),
        [''JWT verification failed: signature verification failed'']) \<and>
   middleware (only_token ''good'' ''k'' Map.empty) [''JWT_SECRET'' \<mapsto> ''k'']
       (request_for ''/ar/admin/panel'' Map.empty) []
     = (Inr (I18nMiddleware (request_for ''/ar/admin/panel'' Map.empty)), []) \<and>
   middleware (only_token ''good'' ''k'' Map.empty) [''JWT_SECRET'' \<mapsto> ''k'']
       (request_for ''/fr/admin/panel'' [''jwt'' \<mapsto> ''forged'']) []
     = (Inr (Redirect \<lparr>origin = ''https://eddeyar.example'',
                       pathname = ''/p/users/connexion'', search = ''''\<rparr>),
        [''JWT verification failed: signature verification failed''])"
  by (simp add: specified_protected_def locales_def protected_path_def startsWith_def
      middleware_def request_for_def getUserFromCookies_def verify_token_def only_token_def
      encode_def)

text \<open>
  C4. For every request whose path matches none of the guard's protected prefixes, the
  guard lets the request through whatever the cookie collection holds, the empty
  collection included: it answers \<^verbatim>\<open>NextResponse.next()\<close> for \<^verbatim>\<open>/favicon.ico\<close> and hands
  every other such request to the locale router. No path is an error.
\<close>

theorem public_path_passes_through:
  "\<not> protected_path (pathname (nextUrl request)) \<Longrightarrow>
   (\<exists>r. fst (middleware jwtVerify env (request\<lparr>cookies := cookieStore\<rparr>) out) = Inr r \<and>
        passes_through r \<and>
        r = (if pathname (nextUrl request) = ''/favicon.ico'' then Next
             else I18nMiddleware (request\<lparr>cookies := cookieStore\<rparr>)))"
  using getUserFromCookies_Inr [of jwtVerify env cookieStore out]
  by (auto simp: middleware_def Let_def split: prod.split sum.split)

theorem public_path_passes_through_witness:
  "\<not> protected_path (pathname (nextUrl (request_for ''/fr/'' Map.empty))) \<and>
   fst (middleware (only_token ''good'' ''k'' Map.empty) Map.empty
          (request_for ''/fr/'' Map.empty) [])
     = Inr (I18nMiddleware (request_for ''/fr/'' Map.empty)) \<and>
   fst (middleware (only_token ''good'' ''k'' Map.empty) Map.empty
          (request_for ''/fr/'' [''jwt'' \<mapsto> ''forged'']) [])
     = Inr (I18nMiddleware (request_for ''/fr/'' [''jwt'' \<mapsto> ''forged''])) \<and>
   passes_through (I18nMiddleware (request_for ''/fr/'' [''jwt'' \<mapsto> ''forged'']))"
  using public_path_passes_through
    [of "request_for ''/fr/'' Map.empty" "only_token ''good'' ''k'' Map.empty" Map.empty
        Map.empty "[]"]
    public_path_passes_through
    [of "request_for ''/fr/'' Map.empty" "only_token ''good'' ''k'' Map.empty" Map.empty
        "[''jwt'' \<mapsto> ''forged'']" "[]"]
  by (simp add: request_for_def protected_path_def startsWith_def)

text \<open>
  C5. For every request to a protected path whose \<^verbatim>\<open>jwt\<close> cookie holds a token that
  \<^verbatim>\<open>jwtVerify\<close> accepts under the configured secret, the guard lets the request through
  (it hands it to the locale router), and the identity the session verifier builds has
  as its \<open>id\<close> the \<open>id\<close> of the payload carried by the token.
\<close>

theorem valid_token_passes_through:
  "protected_path (pathname (nextUrl request)) \<Longrightarrow> cookies request ''jwt'' = Some token \<Longrightarrow>
   jwtVerify token (encode (env ''JWT_SECRET'')) = Inr payload \<Longrightarrow>
   middleware jwtVerify env request out = (Inr (I18nMiddleware request), out) \<and>
   (\<exists>u. getUserFromCookies jwtVerify env (cookies request) out = (Inr (Some u), out) \<and>
        id u = payload ''id'')"
  by (simp add: middleware_def getUserFromCookies_valid protected_not_favicon)

theorem valid_token_passes_through_witness:
  "protected_path (pathname (nextUrl (request_for ''/fr/admin/panel'' [''jwt'' \<mapsto> ''good'']))) \<and>
   cookies (request_for ''/fr/admin/panel'' [''jwt'' \<mapsto> ''good'']) ''jwt'' = Some ''good'' \<and>
   only_token ''good'' ''k'' [''id'' \<mapsto> JString ''u1''] ''good''
       (encode ([''JWT_SECRET'' \<mapsto> ''k''] ''JWT_SECRET''))
     = Inr [''id'' \<mapsto> JString ''u1''] \<and>
   middleware (only_token ''good'' ''k'' [''id'' \<mapsto> JString ''u1'']) [''JWT_SECRET'' \<mapsto> ''k'']
       (request_for ''/fr/admin/panel'' [''jwt'' \<mapsto> ''good'']) []
     = (Inr (I18nMiddleware (request_for ''/fr/admin/panel'' [''jwt'' \<mapsto> ''good''])), []) \<and>
   (\<exists>u. getUserFromCookies (only_token ''good'' ''k'' [''id'' \<mapsto> JString ''u1''])
          [''JWT_SECRET'' \<mapsto> ''k''] [''jwt'' \<mapsto> ''good''] [] = (Inr (Some u), []) \<and>
        id u = Some (JString ''u1''))"
  using valid_token_passes_through
    [of "request_for ''/fr/admin/panel'' [''jwt'' \<mapsto> ''good'']" "''good''"
        "only_token ''good'' ''k'' [''id'' \<mapsto> JString ''u1'']" "[''JWT_SECRET'' \<mapsto> ''k'']"
        "[''id'' \<mapsto> JString ''u1'']" "[]"]
  by (simp add: request_for_def protected_path_def startsWith_def only_token_def encode_def)

subsection \<open>The identity\<close>

text \<open>
  C7. For every token that verifies, the session verifier returns an identity whose
  four fields are the payload's \<open>id\<close>, \<open>email\<close>, \<open>roleName\<close> and \<open>samsar\<close>; a field the
  payload lacks is absent (\<^verbatim>\<open>undefined\<close>) in the identity, and the verifier neither
  fails nor prints anything.
\<close>

theorem missing_payload_fields_absent:
  "cookieStore ''jwt'' = Some token \<Longrightarrow>
   jwtVerify token (encode (env ''JWT_SECRET'')) = Inr payload \<Longrightarrow>
   (\<exists>u. getUserFromCookies jwtVerify env cookieStore out = (Inr (Some u), out) \<and>
        id u = payload ''id'' \<and> email u = payload ''email'' \<and>
        role u = payload ''roleName'' \<and> samsar u = payload ''samsar'' \<and>
        (payload ''id'' = None \<longrightarrow> id u = None) \<and>
        (payload ''email'' = None \<longrightarrow> email u = None) \<and>
        (payload ''roleName'' = None \<longrightarrow> role u = None) \<and>
        (payload ''samsar'' = None \<longrightarrow> samsar u = None))"
  by (simp add: getUserFromCookies_valid)

theorem missing_payload_fields_absent_witness:
  "[''jwt'' \<mapsto> ''good''] ''jwt'' = Some ''good'' \<and>
   only_token ''good'' ''k'' [''email'' \<mapsto> JString ''a@b.mr''] ''good''
       (encode ([''JWT_SECRET'' \<mapsto> ''k''] ''JWT_SECRET''))
     = Inr [''email'' \<mapsto> JString ''a@b.mr''] \<and>
   getUserFromCookies (only_token ''good'' ''k'' [''email'' \<mapsto> JString ''a@b.mr''])
       [''JWT_SECRET'' \<mapsto> ''k''] [''jwt'' \<mapsto> ''good''] []
     = (Inr (Some \<lparr>id = None, email = Some (JString ''a@b.mr''), role = None, samsar = None\<rparr>), [])"
  using missing_payload_fields_absent
    [of "[''jwt'' \<mapsto> ''good'']" "''good''"
        "only_token ''good'' ''k'' [''email'' \<mapsto> JString ''a@b.mr'']"
        "[''JWT_SECRET'' \<mapsto> ''k'']" "[''email'' \<mapsto> JString ''a@b.mr'']" "[]"]
  by (auto simp: only_token_def encode_def)

text \<open>
  The function over the one state agrees with the function over the cookie collection
  and the console: it runs the library at the state's instant and changes nothing of the
  state but the console.
\<close>

lemma getUserFromCookies_in_eq:
  "getUserFromCookies_in jwtVerify env w =
     (case getUserFromCookies (jwtVerify (clock w)) env (cookieJar w) (stdout w) of
        (r, out') \<Rightarrow> (r, w\<lparr>stdout := out'\<rparr>))"
  by (simp add: getUserFromCookies_in_def getUserFromCookies_def verify_token_def
      cookie_get_def jwt_verify_now_def console_log_def split: option.split sum.split)

lemma getUserFromCookies_in_valid:
  "cookieJar w ''jwt'' = Some token \<Longrightarrow>
   jwtVerify (clock w) token (encode (env ''JWT_SECRET'')) = Inr payload \<Longrightarrow>
   getUserFromCookies_in jwtVerify env w =
     (Inr (Some \<lparr>id = payload ''id'', email = payload ''email'',
                 role = payload ''roleName'', samsar = payload ''samsar''\<rparr>), w)"
  by (simp add: getUserFromCookies_in_def cookie_get_def jwt_verify_now_def)

text \<open>
  The verifier never touches the cookie store, whatever the token: after any run the
  store is the one before it.
\<close>

lemma getUserFromCookies_in_keeps_cookies:
  "cookieJar (snd (getUserFromCookies_in jwtVerify env w)) = cookieJar w"
  by (simp add: getUserFromCookies_in_def cookie_get_def jwt_verify_now_def console_log_def
      split: option.split sum.split)

text \<open>
  A token that expires between two runs is accepted by the first and rejected by the
  second, which returns \<^verbatim>\<open>null\<close> and prints the failure: the two runs agree only for a
  token that is valid at both.
\<close>

lemma expired_between_runs:
  "cookieJar w ''jwt'' = Some token \<Longrightarrow>
   jwtVerify (clock w) token (encode (env ''JWT_SECRET'')) = Inr payload \<Longrightarrow>
   jwtVerify (clock w + d) token (encode (env ''JWT_SECRET'')) = Inl e \<Longrightarrow>
   getUserFromCookies_in jwtVerify env
       (later d (snd (getUserFromCookies_in jwtVerify env w)))
     = (Inr None, console_log (''JWT verification failed: '' @ message e) (later d w))"
  by (simp add: getUserFromCookies_in_valid)
    (simp add: getUserFromCookies_in_def cookie_get_def jwt_verify_now_def later_def)

text \<open>
  C8. For every token that is valid, with the payload it carries, at the instant of a
  first verification and at the later instant of a second one, the two runs of the
  session verifier, the second on the state the first one left, yield the same
  identity, whose fields are the payload's. Neither run changes the state: nothing is
  printed, and the cookie store still holds the token after each run, so verification
  does not consume it.
\<close>

theorem verification_idempotent:
  assumes "cookieJar w ''jwt'' = Some token"
    and "jwtVerify (clock w) token (encode (env ''JWT_SECRET'')) = Inr payload"
    and "jwtVerify (clock w + d) token (encode (env ''JWT_SECRET'')) = Inr payload"
  shows "\<exists>u. getUserFromCookies_in jwtVerify env w = (Inr (Some u), w) \<and>
     getUserFromCookies_in jwtVerify env
         (later d (snd (getUserFromCookies_in jwtVerify env w)))
       = (Inr (Some u), later d w) \<and>
     u = \<lparr>id = payload ''id'', email = payload ''email'',
          role = payload ''roleName'', samsar = payload ''samsar''\<rparr> \<and>
     cookieJar (snd (getUserFromCookies_in jwtVerify env
         (later d (snd (getUserFromCookies_in jwtVerify env w))))) ''jwt'' = Some token \<and>
     stdout (snd (getUserFromCookies_in jwtVerify env
         (later d (snd (getUserFromCookies_in jwtVerify env w))))) = stdout w"
proof -
  let ?u = "\<lparr>id = payload ''id'', email = payload ''email'',
             role = payload ''roleName'', samsar = payload ''samsar''\<rparr>"
  have first: "getUserFromCookies_in jwtVerify env w = (Inr (Some ?u), w)"
    using assms(1,2) by (rule getUserFromCookies_in_valid)
  have jar: "cookieJar (later d w) ''jwt'' = Some token"
    using assms(1) by (simp add: later_def)
  have now: "jwtVerify (clock (later d w)) token (encode (env ''JWT_SECRET'')) = Inr payload"
    using assms(3) by (simp add: later_def)
  have second: "getUserFromCookies_in jwtVerify env (later d w) = (Inr (Some ?u), later d w)"
    using jar now by (rule getUserFromCookies_in_valid)
  have left: "snd (getUserFromCookies_in jwtVerify env w) = w"
    by (simp add: first)
  show ?thesis
    using first second jar by (simp add: left later_def)
qed

theorem verification_idempotent_witness:
  "cookieJar \<lparr>cookieJar = [''jwt'' \<mapsto> ''good''], stdout = [''earlier line''], clock = 10\<rparr> ''jwt''
     = Some ''good'' \<and>
   expiring_token ''good'' ''k'' [''id'' \<mapsto> JString ''u1''] 100 10 ''good''
       (encode ([''JWT_SECRET'' \<mapsto> ''k''] ''JWT_SECRET''))
     = Inr [''id'' \<mapsto> JString ''u1''] \<and>
   expiring_token ''good'' ''k'' [''id'' \<mapsto> JString ''u1''] 100 (10 + 5) ''good''
       (encode ([''JWT_SECRET'' \<mapsto> ''k''] ''JWT_SECRET''))
     = Inr [''id'' \<mapsto> JString ''u1''] \<and>
   getUserFromCookies_in (expiring_token ''good'' ''k'' [''id'' \<mapsto> JString ''u1''] 100)
       [''JWT_SECRET'' \<mapsto> ''k'']
       (later 5 (snd (getUserFromCookies_in
          (expiring_token ''good'' ''k'' [''id'' \<mapsto> JString ''u1''] 100)
          [''JWT_SECRET'' \<mapsto> ''k'']
          \<lparr>cookieJar = [''jwt'' \<mapsto> ''good''], stdout = [''earlier line''], clock = 10\<rparr>)))
     = (Inr (Some \<lparr>id = Some (JString ''u1''), email = None, role = None, samsar = None\<rparr>),
        \<lparr>cookieJar = [''jwt'' \<mapsto> ''good''], stdout = [''earlier line''], clock = 15\<rparr>)"
  using verification_idempotent
    [of "\<lparr>cookieJar = [''jwt'' \<mapsto> ''good''], stdout = [''earlier line''], clock = 10\<rparr>"
        "''good''" "expiring_token ''good'' ''k'' [''id'' \<mapsto> JString ''u1''] 100"
        "[''JWT_SECRET'' \<mapsto> ''k'']" "[''id'' \<mapsto> JString ''u1'']" 5]
  by (auto simp: expiring_token_def encode_def later_def)


section \<open>Properties of the database module\<close>

subsection \<open>Loading the module\<close>

lemma getDatabaseName_update_other:
  "k \<noteq> ''DATABASE_NAME'' \<Longrightarrow> k \<noteq> ''MONGODB_DATABASE'' \<Longrightarrow>
   getDatabaseName (env(k := v)) uri = getDatabaseName env uri"
  by (simp add: getDatabaseName_def)

lemma load_mongodb_missing_uri:
  "\<not> truthy (env ''DATABASE_URL'') \<Longrightarrow>
   load_mongodb newMongoClient connect env cached = (Inl missing_uri, cached)"
  by (simp add: load_mongodb_def truthy_def split: option.splits)

lemma load_mongodb_ignores_secret:
  "load_mongodb newMongoClient connect (env(''JWT_SECRET'' := v)) cached =
   load_mongodb newMongoClient connect env cached"
  by (simp add: load_mongodb_def getDatabaseName_update_other Let_def split: option.split)

lemma absent_secret_empty_key:
  "getUserFromCookies jwtVerify (env(''JWT_SECRET'' := None)) cookieStore out =
   getUserFromCookies (\<lambda>token secret. jwtVerify token []) env cookieStore out"
  by (simp add: getUserFromCookies_def verify_token_def encode_def split: option.split)

text \<open>
  The load fails in two ways: on a missing \<^verbatim>\<open>DATABASE_URL\<close>, and when the driver's
  constructor throws on the connection string, as it does on one it cannot parse.
\<close>

lemma load_mongodb_constructor_throws:
  "env ''DATABASE_URL'' = Some uri \<Longrightarrow> uri \<noteq> [] \<Longrightarrow>
   env ''NODE_ENV'' \<noteq> Some ''development'' \<Longrightarrow>
   newMongoClient uri (Some options) = Inl e \<Longrightarrow>
   load_mongodb newMongoClient connect env cached = (Inl e, cached)"
  by (simp add: load_mongodb_def)

text \<open>
  C6, as the specification states it: when the token-verification secret is absent from
  the configuration, the process fails at startup with a configuration error. The load
  of the database module, which checks \<^verbatim>\<open>DATABASE_URL\<close>, does not look at the secret: with
  \<^verbatim>\<open>JWT_SECRET\<close> unset and \<^verbatim>\<open>DATABASE_URL\<close> a connection string that the driver accepts,
  the module loads.
\<close>

theorem startup_without_secret_succeeds:
  "[''DATABASE_URL'' \<mapsto> ''mongodb://localhost:27017/rim-ebay''] ''JWT_SECRET'' = None \<and>
   fst (load_mongodb scheme_client connect_ok
          [''DATABASE_URL'' \<mapsto> ''mongodb://localhost:27017/rim-ebay''] None)
     = Inr \<lparr>databaseName = ''rim-ebay'',
            clientPromise = Inr \<lparr>client_uri = ''mongodb://localhost:27017/rim-ebay'',
                                 client_options = Some options\<rparr>\<rparr>"
  by (simp add: load_mongodb_def getDatabaseName_def match_here_def segment_char_def
      scheme_client_def startsWith_def connect_ok_def)

text \<open>
  C6, amended: the absence of the token-verification secret does not fail the startup:
  the load of the database module gives the same outcome whatever \<^verbatim>\<open>JWT_SECRET\<close> is, and
  it is an unset or an empty \<^verbatim>\<open>DATABASE_URL\<close> that makes the load fail with the
  configuration error. The absence of the secret is never surfaced as a per-request
  error: the secret is read at each verification, the session verifier runs
  \<^verbatim>\<open>jwtVerify\<close> on the empty key when the secret is unset, and neither the session
  verifier nor the route guard returns an error for any request.
\<close>

theorem secret_read_per_request:
  "load_mongodb newMongoClient connect (env(''JWT_SECRET'' := v)) cached
     = load_mongodb newMongoClient connect env cached \<and>
   fst (load_mongodb newMongoClient connect (env(''DATABASE_URL'' := None)) cached)
     = Inl missing_uri \<and>
   fst (load_mongodb newMongoClient connect (env(''DATABASE_URL'' \<mapsto> '''')) cached)
     = Inl missing_uri \<and>
   getUserFromCookies jwtVerify (env(''JWT_SECRET'' := None)) cookieStore out =
     getUserFromCookies (\<lambda>token secret. jwtVerify token []) env cookieStore out \<and>
   (\<exists>r. fst (getUserFromCookies jwtVerify (env(''JWT_SECRET'' := None)) cookieStore out)
          = Inr r) \<and>
   (\<exists>r. fst (middleware jwtVerify (env(''JWT_SECRET'' := None)) request out) = Inr r)"
proof -
  have unset: "fst (load_mongodb newMongoClient connect (env(''DATABASE_URL'' := None)) cached)
     = Inl missing_uri"
    by (simp add: load_mongodb_missing_uri truthy_def)
  have empty: "fst (load_mongodb newMongoClient connect (env(''DATABASE_URL'' \<mapsto> '''')) cached)
     = Inl missing_uri"
    by (simp add: load_mongodb_missing_uri truthy_def)
  show ?thesis
    using load_mongodb_ignores_secret [of newMongoClient connect env v cached] unset empty
      absent_secret_empty_key [of jwtVerify env cookieStore out]
      getUserFromCookies_Inr [of jwtVerify "env(''JWT_SECRET'' := None)" cookieStore out]
      middleware_Inr [of jwtVerify "env(''JWT_SECRET'' := None)" request out]
    by (intro conjI)
qed


subsection \<open>The pattern that extracts the database name\<close>

text \<open>
  The matcher against the pattern's meaning. At the head of a string the pattern
  matches with first group \<open>g\<close> exactly when the string is a slash, then \<open>g\<close>, non-empty
  and free of \<^verbatim>\<open>/\<close> and \<^verbatim>\<open>?\<close>, then either nothing or a \<^verbatim>\<open>?\<close>. The search returns the
  group of the leftmost index at which the pattern matches, and \<^verbatim>\<open>null\<close> when there is
  none.
\<close>

lemma match_here_Some_iff:
  "match_here s = Some g \<longleftrightarrow>
     (\<exists>rest. s = CHR ''/'' # g @ rest \<and> g \<noteq> [] \<and> list_all segment_char g \<and>
             (rest = [] \<or> (\<exists>r. rest = CHR ''?'' # r)))"
proof
  assume m: "match_here s = Some g"
  then obtain rest' where s: "s = CHR ''/'' # rest'"
    by (auto simp: match_here_def split: list.splits if_splits)
  from m s have g: "g = takeWhile segment_char rest'" and ne: "g \<noteq> []"
    and after: "dropWhile segment_char rest' = [] \<or>
                (\<exists>r. dropWhile segment_char rest' = CHR ''?'' # r)"
    by (auto simp: match_here_def Let_def split: list.splits if_splits)
  have "rest' = g @ dropWhile segment_char rest'"
    by (simp add: g)
  moreover have "list_all segment_char g"
    by (simp add: g list_all_iff) (meson set_takeWhileD)
  ultimately show "\<exists>rest. s = CHR ''/'' # g @ rest \<and> g \<noteq> [] \<and> list_all segment_char g \<and>
             (rest = [] \<or> (\<exists>r. rest = CHR ''?'' # r))"
    using s ne after by blast
next
  assume "\<exists>rest. s = CHR ''/'' # g @ rest \<and> g \<noteq> [] \<and> list_all segment_char g \<and>
             (rest = [] \<or> (\<exists>r. rest = CHR ''?'' # r))"
  then obtain rest where s: "s = CHR ''/'' # g @ rest" and ne: "g \<noteq> []"
    and seg: "list_all segment_char g" and rest: "rest = [] \<or> (\<exists>r. rest = CHR ''?'' # r)"
    by blast
  from seg have all: "\<And>c. c \<in> set g \<Longrightarrow> segment_char c"
    by (simp add: list_all_iff)
  from rest have tw: "takeWhile segment_char rest = []" and dw: "dropWhile segment_char rest = rest"
    by (auto simp: segment_char_def)
  have "takeWhile segment_char (g @ rest) = g"
    using all tw by (simp add: takeWhile_append2)
  moreover have "dropWhile segment_char (g @ rest) = rest"
    using all dw by (simp add: dropWhile_append2)
  ultimately show "match_here s = Some g"
    using s ne rest by (auto simp: match_here_def)
qed

lemma uri_match_None_iff:
  "uri_match s = None \<longleftrightarrow> (\<forall>k\<le>length s. match_here (drop k s) = None)"
proof (induction s)
  case Nil
  then show ?case by (simp add: match_here_def)
next
  case (Cons c cs)
  have "(\<forall>k\<le>length (c # cs). match_here (drop k (c # cs)) = None) \<longleftrightarrow>
        match_here (c # cs) = None \<and> (\<forall>k\<le>length cs. match_here (drop k cs) = None)"
  proof
    assume a: "\<forall>k\<le>length (c # cs). match_here (drop k (c # cs)) = None"
    have "match_here (c # cs) = None" using a [rule_format, of 0] by simp
    moreover have "\<forall>k\<le>length cs. match_here (drop k cs) = None"
    proof (intro allI impI)
      fix k assume "k \<le> length cs"
      then show "match_here (drop k cs) = None" using a [rule_format, of "Suc k"] by simp
    qed
    ultimately show "match_here (c # cs) = None \<and> (\<forall>k\<le>length cs. match_here (drop k cs) = None)" ..
  next
    assume a: "match_here (c # cs) = None \<and> (\<forall>k\<le>length cs. match_here (drop k cs) = None)"
    show "\<forall>k\<le>length (c # cs). match_here (drop k (c # cs)) = None"
    proof (intro allI impI)
      fix k assume "k \<le> length (c # cs)"
      then show "match_here (drop k (c # cs)) = None"
        using a by (cases k) auto
    qed
  qed
  with Cons show ?case by (auto split: option.splits)
qed

lemma uri_match_Some_iff:
  "uri_match s = Some g \<longleftrightarrow>
     (\<exists>k\<le>length s. match_here (drop k s) = Some g \<and> (\<forall>j<k. match_here (drop j s) = None))"
proof (induction s)
  case Nil
  then show ?case by (simp add: match_here_def)
next
  case (Cons c cs)
  show ?case
  proof (cases "match_here (c # cs)")
    case (Some g')
    have "(\<exists>k\<le>length (c # cs). match_here (drop k (c # cs)) = Some g \<and> (\<forall>j<k. match_here (drop j (c # cs)) = None)) \<longleftrightarrow> g' = g"
    proof
      assume "\<exists>k\<le>length (c # cs). match_here (drop k (c # cs)) = Some g \<and> (\<forall>j<k. match_here (drop j (c # cs)) = None)"
      then obtain k where k: "match_here (drop k (c # cs)) = Some g" "\<forall>j<k. match_here (drop j (c # cs)) = None"
        by blast
      have "k = 0"
      proof (rule ccontr)
        assume "k \<noteq> 0"
        then have "match_here (drop 0 (c # cs)) = None" using k(2) by blast
        with Some show False by simp
      qed
      with k(1) Some show "g' = g" by simp
    next
      assume "g' = g"
      with Some have "match_here (drop 0 (c # cs)) = Some g \<and> (\<forall>j<0. match_here (drop j (c # cs)) = None)"
        by simp
      then show "\<exists>k\<le>length (c # cs). match_here (drop k (c # cs)) = Some g \<and> (\<forall>j<k. match_here (drop j (c # cs)) = None)"
        by blast
    qed
    with Some show ?thesis by simp
  next
    case None
    have "(\<exists>k\<le>length (c # cs). match_here (drop k (c # cs)) = Some g \<and> (\<forall>j<k. match_here (drop j (c # cs)) = None)) \<longleftrightarrow>
          (\<exists>k\<le>length cs. match_here (drop k cs) = Some g \<and> (\<forall>j<k. match_here (drop j cs) = None))"
    proof
      assume "\<exists>k\<le>length (c # cs). match_here (drop k (c # cs)) = Some g \<and> (\<forall>j<k. match_here (drop j (c # cs)) = None)"
      then obtain k where k: "k \<le> length (c # cs)" "match_here (drop k (c # cs)) = Some g"
        "\<forall>j<k. match_here (drop j (c # cs)) = None" by blast
      from k(2) None obtain k' where k': "k = Suc k'" by (cases k) auto
      have "\<forall>j<k'. match_here (drop j cs) = None"
      proof (intro allI impI)
        fix j assume "j < k'"
        then have "Suc j < k" using k' by simp
        then have "match_here (drop (Suc j) (c # cs)) = None" using k(3) by blast
        then show "match_here (drop j cs) = None" by simp
      qed
      with k k' show "\<exists>k\<le>length cs. match_here (drop k cs) = Some g \<and> (\<forall>j<k. match_here (drop j cs) = None)"
        by auto
    next
      assume "\<exists>k\<le>length cs. match_here (drop k cs) = Some g \<and> (\<forall>j<k. match_here (drop j cs) = None)"
      then obtain k where k: "k \<le> length cs" "match_here (drop k cs) = Some g"
        "\<forall>j<k. match_here (drop j cs) = None" by blast
      have "\<forall>j<Suc k. match_here (drop j (c # cs)) = None"
      proof (intro allI impI)
        fix j assume "j < Suc k"
        then show "match_here (drop j (c # cs)) = None"
          using None k(3) by (cases j) auto
      qed
      with k show "\<exists>k\<le>length (c # cs). match_here (drop k (c # cs)) = Some g \<and> (\<forall>j<k. match_here (drop j (c # cs)) = None)"
        by (intro exI [of _ "Suc k"]) simp
    qed
    with None Cons show ?thesis by simp
  qed
qed


subsection \<open>The database name\<close>

lemma load_mongodb_databaseName:
  "fst (load_mongodb newMongoClient connect env cached) = Inr m \<Longrightarrow>
   \<exists>uri. env ''DATABASE_URL'' = Some uri \<and> uri \<noteq> [] \<and> databaseName m = getDatabaseName env uri"
  by (auto simp: load_mongodb_def Let_def split: option.splits if_splits sum.splits)

lemma getDatabaseName_explicit:
  "env ''DATABASE_NAME'' = Some name \<Longrightarrow> name \<noteq> [] \<Longrightarrow> getDatabaseName env uri = name"
  by (simp add: getDatabaseName_def)

lemma getDatabaseName_extracted:
  "\<not> truthy (env ''DATABASE_NAME'') \<Longrightarrow> uri_match uri = Some g \<Longrightarrow> g \<noteq> [] \<Longrightarrow>
   getDatabaseName env uri = g"
  by (auto simp: getDatabaseName_def truthy_def split: option.splits)

lemma getDatabaseName_fallback:
  "\<not> truthy (env ''DATABASE_NAME'') \<Longrightarrow> uri_match uri = None \<Longrightarrow>
   env ''MONGODB_DATABASE'' = Some d \<Longrightarrow> d \<noteq> [] \<Longrightarrow> getDatabaseName env uri = d"
  by (auto simp: getDatabaseName_def truthy_def split: option.splits)

lemma getDatabaseName_default:
  "\<not> truthy (env ''DATABASE_NAME'') \<Longrightarrow> uri_match uri = None \<Longrightarrow>
   \<not> truthy (env ''MONGODB_DATABASE'') \<Longrightarrow> getDatabaseName env uri = ''rim-ebay''"
  by (auto simp: getDatabaseName_def truthy_def split: option.splits)

lemma match_here_nonempty: "match_here s = Some g \<Longrightarrow> g \<noteq> []"
  by (auto simp: match_here_def Let_def split: list.splits if_splits)

lemma uri_match_nonempty: "uri_match s = Some g \<Longrightarrow> g \<noteq> []"
  by (induction s) (auto split: option.splits dest: match_here_nonempty)

text \<open>
  C9. When the module has loaded, its database name is fixed with this precedence:
  \<^verbatim>\<open>DATABASE_NAME\<close> when set to a non-empty string; else the first group of the pattern
  \<^verbatim>\<open>/\/([^/?]+)(\?|$)/\<close> matched against the connection URI; else \<^verbatim>\<open>MONGODB_DATABASE\<close> when
  set to a non-empty string; else \<^verbatim>\<open>rim-ebay\<close>. \<^verbatim>\<open>getDb\<close> answers a handle to the
  database of that name on the connected client, on every call, and rejects when the
  connection has failed.
\<close>

theorem database_name_precedence:
  assumes "fst (load_mongodb newMongoClient connect env cached) = Inr m"
    and "env ''DATABASE_URL'' = Some uri"
  shows "(\<forall>name. env ''DATABASE_NAME'' = Some name \<longrightarrow> name \<noteq> [] \<longrightarrow> databaseName m = name) \<and>
     (\<forall>g. \<not> truthy (env ''DATABASE_NAME'') \<longrightarrow> uri_match uri = Some g \<longrightarrow> databaseName m = g) \<and>
     (\<forall>d. \<not> truthy (env ''DATABASE_NAME'') \<longrightarrow> uri_match uri = None \<longrightarrow>
          env ''MONGODB_DATABASE'' = Some d \<longrightarrow> d \<noteq> [] \<longrightarrow> databaseName m = d) \<and>
     (\<not> truthy (env ''DATABASE_NAME'') \<longrightarrow> uri_match uri = None \<longrightarrow>
          \<not> truthy (env ''MONGODB_DATABASE'') \<longrightarrow> databaseName m = ''rim-ebay'') \<and>
     (\<forall>c. clientPromise m = Inr c \<longrightarrow>
          getDb m = Inr \<lparr>db_client = c, db_name = databaseName m\<rparr>) \<and>
     (\<forall>e. clientPromise m = Inl e \<longrightarrow> getDb m = Inl e)"
proof -
  from load_mongodb_databaseName [OF assms(1)] assms(2)
  have n: "databaseName m = getDatabaseName env uri"
    by auto
  have explicit: "\<forall>name. env ''DATABASE_NAME'' = Some name \<longrightarrow> name \<noteq> [] \<longrightarrow> databaseName m = name"
    by (simp add: n getDatabaseName_explicit)
  have extracted: "\<forall>g. \<not> truthy (env ''DATABASE_NAME'') \<longrightarrow> uri_match uri = Some g \<longrightarrow> databaseName m = g"
    using uri_match_nonempty by (simp add: n getDatabaseName_extracted)
  have fallback: "\<forall>d. \<not> truthy (env ''DATABASE_NAME'') \<longrightarrow> uri_match uri = None \<longrightarrow>
          env ''MONGODB_DATABASE'' = Some d \<longrightarrow> d \<noteq> [] \<longrightarrow> databaseName m = d"
    by (simp add: n getDatabaseName_fallback)
  have default: "\<not> truthy (env ''DATABASE_NAME'') \<longrightarrow> uri_match uri = None \<longrightarrow>
          \<not> truthy (env ''MONGODB_DATABASE'') \<longrightarrow> databaseName m = ''rim-ebay''"
    by (simp add: n getDatabaseName_default)
  have resolved: "\<forall>c. clientPromise m = Inr c \<longrightarrow>
          getDb m = Inr \<lparr>db_client = c, db_name = databaseName m\<rparr>"
    by (simp add: getDb_def)
  have rejected: "\<forall>e. clientPromise m = Inl e \<longrightarrow> getDb m = Inl e"
    by (simp add: getDb_def)
  show ?thesis
    by (intro conjI) (fact explicit, fact extracted, fact fallback, fact default,
        fact resolved, fact rejected)
qed

theorem database_name_precedence_witness:
  "fst (load_mongodb scheme_client connect_ok
          [''DATABASE_URL'' \<mapsto> ''mongodb://localhost:27017/rim-ebay'',
           ''DATABASE_NAME'' \<mapsto> ''eddeyar''] None)
     = Inr \<lparr>databaseName = ''eddeyar'',
            clientPromise = Inr \<lparr>client_uri = ''mongodb://localhost:27017/rim-ebay'',
                                 client_options = Some options\<rparr>\<rparr> \<and>
   getDb \<lparr>databaseName = ''eddeyar'',
          clientPromise = Inr \<lparr>client_uri = ''mongodb://localhost:27017/rim-ebay'',
                               client_options = Some options\<rparr>\<rparr>
     = Inr \<lparr>db_client = \<lparr>client_uri = ''mongodb://localhost:27017/rim-ebay'',
                         client_options = Some options\<rparr>,
            db_name = ''eddeyar''\<rparr> \<and>
   uri_match ''mongodb://db.example.mr/shop?retryWrites=true'' = Some ''shop'' \<and>
   fst (load_mongodb scheme_client connect_ok
          [''DATABASE_URL'' \<mapsto> ''mongodb://db.example.mr/shop?retryWrites=true''] None)
     = Inr \<lparr>databaseName = ''shop'',
            clientPromise = Inr \<lparr>client_uri = ''mongodb://db.example.mr/shop?retryWrites=true'',
                                 client_options = Some options\<rparr>\<rparr> \<and>
   uri_match ''mongodb://localhost:27017/'' = None \<and>
   fst (load_mongodb scheme_client connect_ok
          [''DATABASE_URL'' \<mapsto> ''mongodb://localhost:27017/'',
           ''MONGODB_DATABASE'' \<mapsto> ''annonces''] None)
     = Inr \<lparr>databaseName = ''annonces'',
            clientPromise = Inr \<lparr>client_uri = ''mongodb://localhost:27017/'',
                                 client_options = Some options\<rparr>\<rparr> \<and>
   fst (load_mongodb scheme_client connect_ok
          [''DATABASE_URL'' \<mapsto> ''mongodb://localhost:27017/''] None)
     = Inr \<lparr>databaseName = ''rim-ebay'',
            clientPromise = Inr \<lparr>client_uri = ''mongodb://localhost:27017/'',
                                 client_options = Some options\<rparr>\<rparr>"
proof -
  have load:
    "\<And>env uri. env ''DATABASE_URL'' = Some uri \<Longrightarrow> uri \<noteq> [] \<Longrightarrow>
       env ''NODE_ENV'' \<noteq> Some ''development'' \<Longrightarrow> startsWith uri ''mongodb://'' \<Longrightarrow>
       \<exists>name. fst (load_mongodb scheme_client connect_ok env None)
         = Inr \<lparr>databaseName = name,
                clientPromise = Inr \<lparr>client_uri = uri, client_options = Some options\<rparr>\<rparr>"
    by (simp add: load_mongodb_def scheme_client_def connect_ok_def Let_def)
  have m1: "uri_match ''mongodb://db.example.mr/shop?retryWrites=true'' = Some ''shop''"
    by (simp add: match_here_def segment_char_def)
  have m2: "uri_match ''mongodb://localhost:27017/'' = None"
    by (simp add: match_here_def segment_char_def)
  from load [of "[''DATABASE_URL'' \<mapsto> ''mongodb://localhost:27017/rim-ebay'',
                  ''DATABASE_NAME'' \<mapsto> ''eddeyar'']" "''mongodb://localhost:27017/rim-ebay''"]
  obtain n1 where l1: "fst (load_mongodb scheme_client connect_ok
          [''DATABASE_URL'' \<mapsto> ''mongodb://localhost:27017/rim-ebay'',
           ''DATABASE_NAME'' \<mapsto> ''eddeyar''] None)
     = Inr \<lparr>databaseName = n1,
            clientPromise = Inr \<lparr>client_uri = ''mongodb://localhost:27017/rim-ebay'',
                                 client_options = Some options\<rparr>\<rparr>"
    by (auto simp: startsWith_def)
  from database_name_precedence [OF l1, of "''mongodb://localhost:27017/rim-ebay''"]
  have c1: "n1 = ''eddeyar''" and g1: "getDb \<lparr>databaseName = n1,
          clientPromise = Inr \<lparr>client_uri = ''mongodb://localhost:27017/rim-ebay'',
                               client_options = Some options\<rparr>\<rparr>
     = Inr \<lparr>db_client = \<lparr>client_uri = ''mongodb://localhost:27017/rim-ebay'',
                         client_options = Some options\<rparr>,
            db_name = n1\<rparr>"
    by auto
  from load [of "[''DATABASE_URL'' \<mapsto> ''mongodb://db.example.mr/shop?retryWrites=true'']"
      "''mongodb://db.example.mr/shop?retryWrites=true''"]
  obtain n2 where l2: "fst (load_mongodb scheme_client connect_ok
          [''DATABASE_URL'' \<mapsto> ''mongodb://db.example.mr/shop?retryWrites=true''] None)
     = Inr \<lparr>databaseName = n2,
            clientPromise = Inr \<lparr>client_uri = ''mongodb://db.example.mr/shop?retryWrites=true'',
                                 client_options = Some options\<rparr>\<rparr>"
    by (auto simp: startsWith_def)
  from database_name_precedence [OF l2, of "''mongodb://db.example.mr/shop?retryWrites=true''"] m1
  have c2: "n2 = ''shop''"
    by (simp add: truthy_def)
  from load [of "[''DATABASE_URL'' \<mapsto> ''mongodb://localhost:27017/'',
                  ''MONGODB_DATABASE'' \<mapsto> ''annonces'']" "''mongodb://localhost:27017/''"]
  obtain n3 where l3: "fst (load_mongodb scheme_client connect_ok
          [''DATABASE_URL'' \<mapsto> ''mongodb://localhost:27017/'',
           ''MONGODB_DATABASE'' \<mapsto> ''annonces''] None)
     = Inr \<lparr>databaseName = n3,
            clientPromise = Inr \<lparr>client_uri = ''mongodb://localhost:27017/'',
                                 client_options = Some options\<rparr>\<rparr>"
    by (auto simp: startsWith_def)
  from database_name_precedence [OF l3, of "''mongodb://localhost:27017/''"] m2
  have c3: "n3 = ''annonces''"
    by (simp add: truthy_def)
  from load [of "[''DATABASE_URL'' \<mapsto> ''mongodb://localhost:27017/'']"
      "''mongodb://localhost:27017/''"]
  obtain n4 where l4: "fst (load_mongodb scheme_client connect_ok
          [''DATABASE_URL'' \<mapsto> ''mongodb://localhost:27017/''] None)
     = Inr \<lparr>databaseName = n4,
            clientPromise = Inr \<lparr>client_uri = ''mongodb://localhost:27017/'',
                                 client_options = Some options\<rparr>\<rparr>"
    by (auto simp: startsWith_def)
  from database_name_precedence [OF l4, of "''mongodb://localhost:27017/''"] m2
  have c4: "n4 = ''rim-ebay''"
    by (simp add: truthy_def)
  show ?thesis
    using l1 g1 l2 l3 l4 m1 m2 unfolding c1 c2 c3 c4 by (intro conjI)
qed


section \<open>Properties of the options-by-id endpoint\<close>

text \<open>
  C10. For a non-empty \<open>id\<close> that matches no row, the handler answers status 200 with
  the JSON body \<^verbatim>\<open>null\<close>. Whatever the request, the handler returns a response and never
  an error; the response has status 400 exactly when the \<open>id\<close> parameter is the empty
  string; and when awaiting the parameters or the query throws, the response is the fixed
  body \<^verbatim>\<open>{ ok: false, error: "Erreur serveur" }\<close> with status 500.
\<close>

theorem options_by_id_statuses:
  "(ident \<noteq> [] \<longrightarrow> execute ''SELECT * FROM options WHERE id = ?'' [ident] = Inr [] \<longrightarrow>
      GET execute (Inr ident) out = (Inr \<lparr>status = 200, body = JNull\<rparr>, out)) \<and>
   (\<exists>r. fst (GET execute params out) = Inr r \<and>
        ((status r = 400) = (params = Inr [])) \<and>
        ((\<exists>e. params = Inl e \<or>
              (\<exists>i. params = Inr i \<and> i \<noteq> [] \<and>
                   execute ''SELECT * FROM options WHERE id = ?'' [i] = Inl e)) \<longrightarrow>
         r = \<lparr>status = 500,
              body = JObject [(''ok'', JBool False), (''error'', JString ''Erreur serveur'')]\<rparr>))"
proof (intro conjI impI)
  assume "ident \<noteq> []" and "execute ''SELECT * FROM options WHERE id = ?'' [ident] = Inr []"
  then show "GET execute (Inr ident) out = (Inr \<lparr>status = 200, body = JNull\<rparr>, out)"
    by (simp add: GET_def GET_try_def json_response_def)
next
  show "\<exists>r. fst (GET execute params out) = Inr r \<and>
        ((status r = 400) = (params = Inr [])) \<and>
        ((\<exists>e. params = Inl e \<or>
              (\<exists>i. params = Inr i \<and> i \<noteq> [] \<and>
                   execute ''SELECT * FROM options WHERE id = ?'' [i] = Inl e)) \<longrightarrow>
         r = \<lparr>status = 500,
              body = JObject [(''ok'', JBool False), (''error'', JString ''Erreur serveur'')]\<rparr>)"
  proof (cases params)
    case (Inl e)
    then show ?thesis by (simp add: GET_def GET_try_def json_response_def)
  next
    case (Inr i)
    show ?thesis
    proof (cases "i = []")
      case True
      with Inr show ?thesis by (simp add: GET_def GET_try_def json_response_def)
    next
      case False
      show ?thesis
      proof (cases "execute ''SELECT * FROM options WHERE id = ?'' [i]")
        case (Inl e)
        with Inr False show ?thesis by (simp add: GET_def GET_try_def json_response_def)
      next
        case rows: (Inr rows)
        with Inr False show ?thesis by (simp add: GET_def GET_try_def json_response_def)
      qed
    qed
  qed
qed

theorem options_by_id_statuses_witness:
  "''8'' \<noteq> [] \<and>
   table_executor [[(''id'', JString ''7''), (''name'', JString ''Toyota'')]]
       ''SELECT * FROM options WHERE id = ?'' [''8''] = Inr [] \<and>
   GET (table_executor [[(''id'', JString ''7''), (''name'', JString ''Toyota'')]]) (Inr ''8'') []
     = (Inr \<lparr>status = 200, body = JNull\<rparr>, []) \<and>
   fst (GET (table_executor [[(''id'', JString ''7''), (''name'', JString ''Toyota'')]])
          (Inr '''') [])
     = Inr \<lparr>status = 400,
            body = JObject [(''ok'', JBool False),
                            (''error'', JString ''Champs obligatoires manquants'')]\<rparr> \<and>
   fst (GET (table_executor [[(''id'', JString ''7''), (''name'', JString ''Toyota'')]])
          (Inl (JsError ''params rejected'')) [])
     = Inr \<lparr>status = 500,
            body = JObject [(''ok'', JBool False), (''error'', JString ''Erreur serveur'')]\<rparr>"
  using options_by_id_statuses
    [of "''8''" "table_executor [[(''id'', JString ''7''), (''name'', JString ''Toyota'')]]"
        "[]" "Inr ''''"]
    options_by_id_statuses
    [of "''8''" "table_executor [[(''id'', JString ''7''), (''name'', JString ''Toyota'')]]"
        "[]" "Inl (JsError ''params rejected'')"]
  by (auto simp: table_executor_def GET_def GET_try_def json_response_def)

end
